theory Spec2Isabelle
  imports Complex_Main
begin

section \<open>The game engine (backend/pong/game_engine.py)\<close>

text \<open>
  Python floats are modelled as mathematical reals (no rounding), Python ints as \<open>int\<close>.
  The two random draws of the engine (\<open>random.choice([1, 2])\<close> in \<open>start_game\<close> and
  \<open>random.uniform(-pi/4, pi/4)\<close> in \<open>reset_ball\<close>) are explicit arguments: \<open>choice\<close> and
  \<open>angle\<close>.
\<close>

subsection \<open>Constants\<close>

definition FIELD_WIDTH :: real where "FIELD_WIDTH = 100"
definition FIELD_HEIGHT :: real where "FIELD_HEIGHT = 100"
definition PADDLE_WIDTH :: real where "PADDLE_WIDTH = 2"
definition PADDLE_HEIGHT :: real where "PADDLE_HEIGHT = 20"
definition BALL_SIZE :: real where "BALL_SIZE = 2"
definition INITIAL_BALL_SPEED :: real where "INITIAL_BALL_SPEED = 8 / 10"
definition SPEED_INCREASE_FACTOR :: real where "SPEED_INCREASE_FACTOR = 105 / 100"
definition MAX_BALL_SPEED :: real where "MAX_BALL_SPEED = 3"
definition PADDLE_SPEED :: real where "PADDLE_SPEED = 15 / 10"

subsection \<open>State\<close>

datatype status = WaitingForOpponent | WaitingForReady | Playing | Finished

record engine =
  room_code :: string
  points_limit :: int
  status :: status
  player1_ready :: bool
  player2_ready :: bool
  player1_connected :: bool
  player2_connected :: bool
  score_p1 :: int
  score_p2 :: int
  winner :: "string option"
  p1_y :: real
  p2_y :: real
  p1_direction :: string
  p2_direction :: string
  ball_x :: real
  ball_y :: real
  ball_velocity_x :: real
  ball_velocity_y :: real
  ball_speed :: real

text \<open>The event dictionary returned by \<open>update\<close>; \<open>score\<close> holds the scoring player.\<close>

record events =
  paddle_hit :: bool
  wall_hit :: bool
  score :: "int option"
  game_over :: bool

text \<open>\<open>GameEngine.__init__\<close>\<close>

definition init_engine :: "string \<Rightarrow> int \<Rightarrow> engine" where
  "init_engine code limit =
     \<lparr> room_code = code, points_limit = limit, status = WaitingForOpponent,
       player1_ready = False, player2_ready = False,
       player1_connected = False, player2_connected = False,
       score_p1 = 0, score_p2 = 0, winner = None,
       p1_y = 50, p2_y = 50, p1_direction = ''stop'', p2_direction = ''stop'',
       ball_x = 50, ball_y = 50, ball_velocity_x = 0, ball_velocity_y = 0,
       ball_speed = INITIAL_BALL_SPEED \<rparr>"

subsection \<open>Player lifecycle\<close>

text \<open>\<open>player_join\<close> returns the success flag together with the new state.\<close>

definition player_join :: "int \<Rightarrow> engine \<Rightarrow> bool \<times> engine" where
  "player_join player_num s =
     (if player_num = 1 then
        (let s1 = s\<lparr>player1_connected := True\<rparr>
         in (True, if player2_connected s1 then s1\<lparr>status := WaitingForReady\<rparr> else s1))
      else if player_num = 2 then
        (let s1 = s\<lparr>player2_connected := True\<rparr>
         in (True, if player1_connected s1 then s1\<lparr>status := WaitingForReady\<rparr> else s1))
      else (False, s))"

definition reset_ball :: "real \<Rightarrow> int \<Rightarrow> engine \<Rightarrow> engine" where
  "reset_ball angle serve_to_player s =
     (let s1 = s\<lparr>ball_x := 50, ball_y := 50, ball_speed := INITIAL_BALL_SPEED\<rparr>;
          direction = (if serve_to_player = 2 then 1 else - 1 :: real)
      in s1\<lparr>ball_velocity_x := direction * ball_speed s1 * cos angle,
             ball_velocity_y := ball_speed s1 * sin angle\<rparr>)"

definition start_game :: "int \<Rightarrow> real \<Rightarrow> engine \<Rightarrow> engine" where
  "start_game choice angle s = reset_ball angle choice (s\<lparr>status := Playing\<rparr>)"

definition player_ready :: "int \<Rightarrow> real \<Rightarrow> int \<Rightarrow> engine \<Rightarrow> engine" where
  "player_ready choice angle player_num s =
     (let s1 = (if player_num = 1 then s\<lparr>player1_ready := True\<rparr>
                else if player_num = 2 then s\<lparr>player2_ready := True\<rparr>
                else s)
      in if player1_ready s1 \<and> player2_ready s1 \<and> status s1 = WaitingForReady
         then start_game choice angle s1 else s1)"

definition set_paddle_direction :: "int \<Rightarrow> string \<Rightarrow> engine \<Rightarrow> engine" where
  "set_paddle_direction player_num direction s =
     (if player_num = 1 then s\<lparr>p1_direction := direction\<rparr>
      else if player_num = 2 then s\<lparr>p2_direction := direction\<rparr>
      else s)"

subsection \<open>One tick\<close>

definition update_paddles :: "real \<Rightarrow> engine \<Rightarrow> engine" where
  "update_paddles delta_time s =
     (let s1 = (if p1_direction s = ''up'' then s\<lparr>p1_y := p1_y s - PADDLE_SPEED\<rparr>
                else if p1_direction s = ''down'' then s\<lparr>p1_y := p1_y s + PADDLE_SPEED\<rparr>
                else s);
          s2 = (if p2_direction s1 = ''up'' then s1\<lparr>p2_y := p2_y s1 - PADDLE_SPEED\<rparr>
                else if p2_direction s1 = ''down'' then s1\<lparr>p2_y := p2_y s1 + PADDLE_SPEED\<rparr>
                else s1);
          paddle_half_height = PADDLE_HEIGHT / 2
      in s2\<lparr>p1_y := max paddle_half_height (min (FIELD_HEIGHT - paddle_half_height) (p1_y s2)),
             p2_y := max paddle_half_height (min (FIELD_HEIGHT - paddle_half_height) (p2_y s2))\<rparr>)"

definition check_paddle_collision :: "int \<Rightarrow> engine \<times> events \<Rightarrow> engine \<times> events" where
  "check_paddle_collision player_num se =
     (case se of (s, ev) \<Rightarrow>
       let paddle_x = (if player_num = 1 then PADDLE_WIDTH else FIELD_WIDTH - PADDLE_WIDTH);
           paddle_y = (if player_num = 1 then p1_y s else p2_y s);
           ball_moving_towards_paddle =
             (if player_num = 1 then ball_velocity_x s < 0 else ball_velocity_x s > 0)
       in if \<not> ball_moving_towards_paddle then (s, ev)
          else
            let ball_half_size = BALL_SIZE / 2;
                paddle_half_height = PADDLE_HEIGHT / 2;
                paddle_half_width = PADDLE_WIDTH / 2;
                ball_left = ball_x s - ball_half_size;
                ball_right = ball_x s + ball_half_size;
                ball_top = ball_y s - ball_half_size;
                ball_bottom = ball_y s + ball_half_size;
                paddle_left = paddle_x - paddle_half_width;
                paddle_right = paddle_x + paddle_half_width;
                paddle_top = paddle_y - paddle_half_height;
                paddle_bottom = paddle_y + paddle_half_height
            in if ball_right \<ge> paddle_left \<and> ball_left \<le> paddle_right \<and>
                  ball_bottom \<ge> paddle_top \<and> ball_top \<le> paddle_bottom
               then
                 let ev1 = ev\<lparr>paddle_hit := True\<rparr>;
                     s1 = s\<lparr>ball_velocity_x := - ball_velocity_x s\<rparr>;
                     hit_pos = (ball_y s1 - paddle_y) / paddle_half_height;
                     s2 = s1\<lparr>ball_velocity_y := ball_velocity_y s1 + hit_pos * (5 / 10)\<rparr>;
                     current_speed = sqrt ((ball_velocity_x s2)\<^sup>2 + (ball_velocity_y s2)\<^sup>2);
                     new_speed = min (current_speed * SPEED_INCREASE_FACTOR) MAX_BALL_SPEED;
                     s3 = (if current_speed > 0
                           then s2\<lparr>ball_velocity_x := (ball_velocity_x s2 / current_speed) * new_speed,
                                   ball_velocity_y := (ball_velocity_y s2 / current_speed) * new_speed\<rparr>
                           else s2)
                 in (if player_num = 1
                     then s3\<lparr>ball_x := paddle_right + ball_half_size + 1 / 10\<rparr>
                     else s3\<lparr>ball_x := paddle_left - ball_half_size - 1 / 10\<rparr>, ev1)
               else (s, ev))"

definition handle_score :: "real \<Rightarrow> engine \<Rightarrow> engine" where
  "handle_score angle s =
     (if score_p1 s \<ge> points_limit s then s\<lparr>winner := Some ''Player 1'', status := Finished\<rparr>
      else if score_p2 s \<ge> points_limit s then s\<lparr>winner := Some ''Player 2'', status := Finished\<rparr>
      else
        (let serve_to = (if score_p2 s > score_p1 s then 1 else 2)
         in reset_ball angle serve_to s))"

text \<open>
  \<open>_update_ball\<close> in its four blocks: move the ball, the wall collisions, the two paddle
  checks, the scoring check.
\<close>

definition move_ball :: "engine \<Rightarrow> engine" where
  "move_ball s = s\<lparr>ball_x := ball_x s + ball_velocity_x s, ball_y := ball_y s + ball_velocity_y s\<rparr>"

definition wall_collisions :: "engine \<times> events \<Rightarrow> engine \<times> events" where
  "wall_collisions se =
     (case se of (s, ev) \<Rightarrow>
       let ball_half_size = BALL_SIZE / 2
       in if ball_y s - ball_half_size \<le> 0
          then (s\<lparr>ball_y := ball_half_size, ball_velocity_y := \<bar>ball_velocity_y s\<bar>\<rparr>,
                ev\<lparr>wall_hit := True\<rparr>)
          else if ball_y s + ball_half_size \<ge> FIELD_HEIGHT
          then (s\<lparr>ball_y := FIELD_HEIGHT - ball_half_size, ball_velocity_y := - \<bar>ball_velocity_y s\<bar>\<rparr>,
                ev\<lparr>wall_hit := True\<rparr>)
          else (s, ev))"

definition check_scoring :: "real \<Rightarrow> engine \<times> events \<Rightarrow> engine \<times> events" where
  "check_scoring angle se =
     (case se of (s, ev) \<Rightarrow>
       if ball_x s \<le> 0
       then (handle_score angle (s\<lparr>score_p2 := score_p2 s + 1\<rparr>), ev\<lparr>score := Some 2\<rparr>)
       else if ball_x s \<ge> FIELD_WIDTH
       then (handle_score angle (s\<lparr>score_p1 := score_p1 s + 1\<rparr>), ev\<lparr>score := Some 1\<rparr>)
       else (s, ev))"

definition update_ball :: "real \<Rightarrow> real \<Rightarrow> engine \<times> events \<Rightarrow> engine \<times> events" where
  "update_ball delta_time angle se =
     (case se of (s, ev) \<Rightarrow>
        check_scoring angle
          (check_paddle_collision 2 (check_paddle_collision 1 (wall_collisions (move_ball s, ev)))))"

definition no_events :: events where
  "no_events = \<lparr> paddle_hit = False, wall_hit = False, score = None, game_over = False \<rparr>"

text \<open>\<open>update\<close> returns the events together with the new state.\<close>

definition update :: "real \<Rightarrow> real \<Rightarrow> engine \<Rightarrow> events \<times> engine" where
  "update delta_time angle s =
     (let events = no_events
      in if status s \<noteq> Playing then (events, s)
         else (case update_ball delta_time angle (update_paddles delta_time s, events) of
                 (s', ev') \<Rightarrow> (ev', s')))"

subsection \<open>Sequences of engine operations\<close>

text \<open>
  The public mutators of the engine as a datatype, each carrying its arguments and the
  random draws it consumes, and the run of a list of them.
\<close>

datatype op =
    PlayerJoin int
  | PlayerReady int real int
  | SetPaddleDirection int string
  | Update real real
  | StartGame int real

fun apply_op :: "op \<Rightarrow> engine \<Rightarrow> engine" where
  "apply_op (PlayerJoin n) s = snd (player_join n s)"
| "apply_op (PlayerReady choice angle n) s = player_ready choice angle n s"
| "apply_op (SetPaddleDirection n d) s = set_paddle_direction n d s"
| "apply_op (Update dt angle) s = snd (update dt angle s)"
| "apply_op (StartGame choice angle) s = start_game choice angle s"

fun run_ops :: "op list \<Rightarrow> engine \<Rightarrow> engine" where
  "run_ops [] s = s"
| "run_ops (x # xs) s = run_ops xs (apply_op x s)"

text \<open>The position of a status in the chain waiting_for_opponent, waiting_for_ready, playing, finished.\<close>

fun status_rank :: "status \<Rightarrow> nat" where
  "status_rank WaitingForOpponent = 0"
| "status_rank WaitingForReady = 1"
| "status_rank Playing = 2"
| "status_rank Finished = 3"

text \<open>
  An operation is guarded in a state when it is not a \<open>player_join\<close> issued after the match
  has started and not a \<open>start_game\<close> issued after the match has finished.
\<close>

fun guarded :: "op \<Rightarrow> engine \<Rightarrow> bool" where
  "guarded (PlayerJoin n) s = (status s = WaitingForOpponent \<or> status s = WaitingForReady)"
| "guarded (StartGame choice angle) s = (status s \<noteq> Finished)"
| "guarded x s = True"

fun guarded_run :: "op list \<Rightarrow> engine \<Rightarrow> bool" where
  "guarded_run [] s = True"
| "guarded_run (x # xs) s = (guarded x s \<and> guarded_run xs (apply_op x s))"

text \<open>A run of update ticks only, each with its \<open>delta_time\<close> and serve angle.\<close>

fun run_updates :: "(real \<times> real) list \<Rightarrow> engine \<Rightarrow> engine" where
  "run_updates [] s = s"
| "run_updates ((dt, angle) # ts) s = run_updates ts (snd (update dt angle s))"

subsection \<open>Observations used in the statements\<close>

definition paddles_in_range :: "engine \<Rightarrow> bool" where
  "paddles_in_range s \<longleftrightarrow>
     PADDLE_HEIGHT / 2 \<le> p1_y s \<and> p1_y s \<le> FIELD_HEIGHT - PADDLE_HEIGHT / 2 \<and>
     PADDLE_HEIGHT / 2 \<le> p2_y s \<and> p2_y s \<le> FIELD_HEIGHT - PADDLE_HEIGHT / 2"

text \<open>The state and events of a tick just before its scoring check.\<close>

definition before_scoring :: "real \<Rightarrow> engine \<Rightarrow> engine \<times> events" where
  "before_scoring dt s =
     check_paddle_collision 2 (check_paddle_collision 1
       (wall_collisions (move_ball (update_paddles dt s), no_events)))"


text \<open>The magnitude of the ball's velocity vector.\<close>

definition speed :: "engine \<Rightarrow> real" where
  "speed s = sqrt ((ball_velocity_x s)\<^sup>2 + (ball_velocity_y s)\<^sup>2)"

text \<open>
  The paddle check in pieces, each with the local names of \<open>_check_paddle_collision\<close>:
  the detection, then the three steps of the handling. Lemma
  \<open>check_paddle_collision_cases\<close> shows that the function is their composition.
\<close>

definition hits :: "int \<Rightarrow> engine \<Rightarrow> bool" where
  "hits player_num s \<longleftrightarrow>
     (let paddle_x = (if player_num = 1 then PADDLE_WIDTH else FIELD_WIDTH - PADDLE_WIDTH);
          paddle_y = (if player_num = 1 then p1_y s else p2_y s);
          ball_moving_towards_paddle =
            (if player_num = 1 then ball_velocity_x s < 0 else ball_velocity_x s > 0);
          ball_half_size = BALL_SIZE / 2;
          paddle_half_height = PADDLE_HEIGHT / 2;
          paddle_half_width = PADDLE_WIDTH / 2;
          ball_left = ball_x s - ball_half_size;
          ball_right = ball_x s + ball_half_size;
          ball_top = ball_y s - ball_half_size;
          ball_bottom = ball_y s + ball_half_size;
          paddle_left = paddle_x - paddle_half_width;
          paddle_right = paddle_x + paddle_half_width;
          paddle_top = paddle_y - paddle_half_height;
          paddle_bottom = paddle_y + paddle_half_height
      in ball_moving_towards_paddle \<and>
         (ball_right \<ge> paddle_left \<and> ball_left \<le> paddle_right \<and>
          ball_bottom \<ge> paddle_top \<and> ball_top \<le> paddle_bottom))"

definition flip_and_spin :: "int \<Rightarrow> engine \<Rightarrow> engine" where
  "flip_and_spin player_num s =
     (let paddle_y = (if player_num = 1 then p1_y s else p2_y s);
          paddle_half_height = PADDLE_HEIGHT / 2;
          s1 = s\<lparr>ball_velocity_x := - ball_velocity_x s\<rparr>;
          hit_pos = (ball_y s1 - paddle_y) / paddle_half_height
      in s1\<lparr>ball_velocity_y := ball_velocity_y s1 + hit_pos * (5 / 10)\<rparr>)"

definition renormalise :: "engine \<Rightarrow> engine" where
  "renormalise s2 =
     (let current_speed = sqrt ((ball_velocity_x s2)\<^sup>2 + (ball_velocity_y s2)\<^sup>2);
          new_speed = min (current_speed * SPEED_INCREASE_FACTOR) MAX_BALL_SPEED
      in if current_speed > 0
         then s2\<lparr>ball_velocity_x := (ball_velocity_x s2 / current_speed) * new_speed,
                 ball_velocity_y := (ball_velocity_y s2 / current_speed) * new_speed\<rparr>
         else s2)"

definition nudge :: "int \<Rightarrow> engine \<Rightarrow> engine" where
  "nudge player_num s3 =
     (let paddle_x = (if player_num = 1 then PADDLE_WIDTH else FIELD_WIDTH - PADDLE_WIDTH);
          ball_half_size = BALL_SIZE / 2;
          paddle_half_width = PADDLE_WIDTH / 2;
          paddle_left = paddle_x - paddle_half_width;
          paddle_right = paddle_x + paddle_half_width
      in if player_num = 1
         then s3\<lparr>ball_x := paddle_right + ball_half_size + 1 / 10\<rparr>
         else s3\<lparr>ball_x := paddle_left - ball_half_size - 1 / 10\<rparr>)"



text \<open>The signed distance a paddle with direction \<open>d\<close> moves in one tick, before clamping.\<close>

definition paddle_step :: "string \<Rightarrow> real" where
  "paddle_step d = (if d = ''up'' then - PADDLE_SPEED else if d = ''down'' then PADDLE_SPEED else 0)"

text \<open>A match that has just begun: playing, no points, no winner.\<close>

definition fresh_playing :: "engine \<Rightarrow> bool" where
  "fresh_playing s \<longleftrightarrow>
     status s = Playing \<and> score_p1 s = 0 \<and> score_p2 s = 0 \<and> winner s = None"

text \<open>Exactly one of the two scores equals the limit.\<close>

definition one_at_limit :: "engine \<Rightarrow> bool" where
  "one_at_limit s \<longleftrightarrow> (score_p1 s = points_limit s) \<noteq> (score_p2 s = points_limit s)"

text \<open>
  The relation between status, scores and winner during and after a match with a positive
  limit: while playing both scores are below the limit and nobody has won; once finished
  exactly one score is at the limit and its player is the winner.
\<close>

definition decided :: "engine \<Rightarrow> bool" where
  "decided s \<longleftrightarrow>
     0 < points_limit s \<and> 0 \<le> score_p1 s \<and> 0 \<le> score_p2 s \<and>
     (status s = Playing \<and> score_p1 s < points_limit s \<and> score_p2 s < points_limit s \<and>
        winner s = None
      \<or> status s = Finished \<and> score_p1 s = points_limit s \<and> score_p2 s < points_limit s \<and>
        winner s = Some ''Player 1''
      \<or> status s = Finished \<and> score_p2 s = points_limit s \<and> score_p1 s < points_limit s \<and>
        winner s = Some ''Player 2'')"

subsection \<open>Concrete states\<close>

text \<open>A rally in progress with the ball in the centre, at rest; the examples below adjust it.\<close>

definition rally :: engine where
  "rally = (init_engine ''ROOM'' 5)\<lparr>status := Playing,
     player1_connected := True, player2_connected := True,
     player1_ready := True, player2_ready := True\<rparr>"

text \<open>Player 1 leads 1:0 and the ball is about to cross the left edge, away from the paddle.\<close>

definition tie_serve_state :: engine where
  "tie_serve_state = rally\<lparr>score_p1 := 1, ball_x := 5 / 10, ball_y := 10,
     ball_velocity_x := - (8 / 10)\<rparr>"

text \<open>Player 1 has 4 of 5 points and the ball is about to cross the right edge.\<close>

definition match_point_state :: engine where
  "match_point_state = rally\<lparr>score_p1 := 4, ball_x := 995 / 10, ball_y := 10,
     ball_velocity_x := 15 / 10\<rparr>"


text \<open>Both paddles moving, the ball in the centre on its way to the lower right.\<close>

definition drifting :: engine where
  "drifting = rally\<lparr>p1_direction := ''up'', p2_direction := ''down'',
     ball_velocity_x := 8 / 10, ball_velocity_y := 3 / 10\<rparr>"

section \<open>The session handler (backend/pong/consumers.py)\<close>

text \<open>A decoded JSON value, and the decoded message: a dictionary from keys to values.\<close>

datatype json =
    JNull
  | JBool bool
  | JInt int
  | JFloat real
  | JStr string
  | JArr "json list"
  | JObj "(string \<times> json) list"

type_synonym payload = "string \<rightharpoonup> json"

datatype task = Running | Done

text \<open>An entry of \<open>ACTIVE_ROOMS\<close>.\<close>

record room =
  engine :: "engine option"
  task :: "task option"
  players :: "int \<rightharpoonup> string"
  observers :: "string list"

type_synonym rooms = "string \<rightharpoonup> room"

text \<open>The fields of a \<open>PongConsumer\<close>; \<open>conn_room_code\<close> is its \<open>room_code\<close>.\<close>

record consumer =
  conn_room_code :: string
  room_group_name :: string
  channel_name :: string
  role :: "string option"
  player_num :: "int option"

datatype message =
    ErrorMessage string
  | JoinedAsObserver string
  | JoinedAsPlayer "int option" string
  | StatusChange status

text \<open>What a handler emits: a reply to its own socket, or a message to a group.\<close>

datatype outbound = Send message | GroupSend string message

datatype py_error = AttributeError

text \<open>
  \<open>handle_join_game\<close>. The engine object is shared with the room, so the room holds the
  engine after \<open>player_join\<close>.
\<close>

definition handle_join_game ::
  "consumer \<Rightarrow> rooms \<Rightarrow> payload \<Rightarrow> consumer \<times> rooms \<times> outbound list" where
  "handle_join_game self active_rooms data =
     (let role0 = (case data ''role'' of None \<Rightarrow> JStr ''player'' | Some v \<Rightarrow> v)
      in case active_rooms (conn_room_code self) of
           None \<Rightarrow> (self, active_rooms, [Send (ErrorMessage ''Room does not exist'')])
         | Some room0 \<Rightarrow>
             let eng0 = (case engine room0 of
                           None \<Rightarrow> init_engine (conn_room_code self) 5
                         | Some e \<Rightarrow> e);
                 room1 = room0\<lparr>engine := Some eng0\<rparr>;
                 (self1, room2, role1) =
                   (if role0 = JStr ''player'' then
                      (if players room1 1 = None then
                         (self\<lparr>player_num := Some 1\<rparr>,
                          room1\<lparr>players := (players room1)(1 \<mapsto> channel_name self),
                                engine := Some (snd (player_join 1 eng0))\<rparr>,
                          role0)
                       else if players room1 2 = None then
                         (self\<lparr>player_num := Some 2\<rparr>,
                          room1\<lparr>players := (players room1)(2 \<mapsto> channel_name self),
                                engine := Some (snd (player_join 2 eng0))\<rparr>,
                          role0)
                       else (self, room1, JStr ''observer''))
                    else (self, room1, role0));
                 (self2, room3, reply) =
                   (if role1 = JStr ''observer'' then
                      (self1\<lparr>role := Some ''observer''\<rparr>,
                       room2\<lparr>observers := observers room2 @ [channel_name self1]\<rparr>,
                       Send (JoinedAsObserver (conn_room_code self1)))
                    else
                      (self1\<lparr>role := Some ''player''\<rparr>, room2,
                       Send (JoinedAsPlayer (player_num self1) (conn_room_code self1))));
                 current = (case engine room3 of None \<Rightarrow> status eng0 | Some e \<Rightarrow> status e)
             in (self2, active_rooms(conn_room_code self \<mapsto> room3),
                 [reply, GroupSend (room_group_name self) (StatusChange current)]))"

text \<open>
  \<open>handle_move_paddle\<close>. Reading \<open>engine.status\<close> of a room whose engine is still
  \<open>None\<close> raises; \<open>receive\<close> turns the exception into an error reply.
\<close>

definition handle_move_paddle ::
  "consumer \<Rightarrow> rooms \<Rightarrow> payload \<Rightarrow> py_error + consumer \<times> rooms \<times> outbound list" where
  "handle_move_paddle self active_rooms data =
     (if role self \<noteq> Some ''player'' \<or> player_num self = None \<or> player_num self = Some 0
      then Inr (self, active_rooms, [])
      else case active_rooms (conn_room_code self) of
             None \<Rightarrow> Inr (self, active_rooms, [])
           | Some room0 \<Rightarrow>
               (case engine room0 of
                  None \<Rightarrow> Inl AttributeError
                | Some eng \<Rightarrow>
                    if status eng \<noteq> Playing then Inr (self, active_rooms, [])
                    else
                      let direction = (case data ''direction'' of None \<Rightarrow> JStr ''stop'' | Some v \<Rightarrow> v)
                      in if direction \<notin> set [JStr ''up'', JStr ''down'', JStr ''stop'']
                         then Inr (self, active_rooms, [])
                         else
                           (case (direction, player_num self) of
                              (JStr d, Some n) \<Rightarrow>
                                Inr (self,
                                     active_rooms(conn_room_code self \<mapsto>
                                       room0\<lparr>engine := Some (set_paddle_direction n d eng)\<rparr>),
                                     [])
                            | _ \<Rightarrow> Inr (self, active_rooms, []))))"

text \<open>The branch of \<open>receive\<close> for a \<open>move_paddle\<close> message, with its exception handler.\<close>

definition receive_move_paddle ::
  "consumer \<Rightarrow> rooms \<Rightarrow> payload \<Rightarrow> consumer \<times> rooms \<times> outbound list" where
  "receive_move_paddle self active_rooms data =
     (case handle_move_paddle self active_rooms data of
        Inl e \<Rightarrow> (self, active_rooms, [Send (ErrorMessage ''AttributeError'')])
      | Inr r \<Rightarrow> r)"

text \<open>A direction value is valid when it is one of the three strings.\<close>

definition valid_direction :: "json \<Rightarrow> bool" where
  "valid_direction v \<longleftrightarrow> v = JStr ''up'' \<or> v = JStr ''down'' \<or> v = JStr ''stop''"

text \<open>The paddle direction the engine stores for a player.\<close>

definition stored_direction :: "int \<Rightarrow> engine \<Rightarrow> string" where
  "stored_direction n s = (if n = 1 then p1_direction s else p2_direction s)"

text \<open>The engine of a room, or the default one that \<open>handle_join_game\<close> creates.\<close>

definition engine_or_default :: "consumer \<Rightarrow> room \<Rightarrow> engine" where
  "engine_or_default self r =
     (case engine r of None \<Rightarrow> init_engine (conn_room_code self) 5 | Some e \<Rightarrow> e)"

text \<open>The message asks for the player role: \<open>data.get('role', 'player') == 'player'\<close>.\<close>

definition asks_player :: "payload \<Rightarrow> bool" where
  "asks_player data \<longleftrightarrow> data ''role'' = None \<or> data ''role'' = Some (JStr ''player'')"

text \<open>\<open>data.get('direction', 'stop')\<close>\<close>

definition direction_of :: "payload \<Rightarrow> json" where
  "direction_of data = (case data ''direction'' of None \<Rightarrow> JStr ''stop'' | Some v \<Rightarrow> v)"

text \<open>
  The room of the connection, if registered, has its engine. \<open>handle_join_game\<close> creates
  the engine before it gives a connection the player role.
\<close>

definition engine_created :: "consumer \<Rightarrow> rooms \<Rightarrow> bool" where
  "engine_created self active_rooms \<longleftrightarrow>
     (case active_rooms (conn_room_code self) of None \<Rightarrow> True | Some r \<Rightarrow> engine r \<noteq> None)"


text \<open>A room with both slots taken and a match in progress, an empty room, and two connections.\<close>

definition full_room :: room where
  "full_room = \<lparr> engine = Some rally, task = Some Running,
     players = [1 \<mapsto> ''channel.one'', 2 \<mapsto> ''channel.two''], observers = [] \<rparr>"

definition open_room :: room where
  "open_room = \<lparr> engine = None, task = None, players = Map.empty, observers = [] \<rparr>"

text \<open>The same room after the connection in slot 1 has left.\<close>

definition one_left_room :: room where
  "one_left_room = full_room\<lparr>players := [2 \<mapsto> ''channel.two'']\<rparr>"

definition player_one :: consumer where
  "player_one = \<lparr> conn_room_code = ''ROOM'', room_group_name = ''pong_ROOM'',
     channel_name = ''channel.one'', role = Some ''player'', player_num = Some 1 \<rparr>"

definition newcomer :: consumer where
  "newcomer = \<lparr> conn_room_code = ''ROOM'', room_group_name = ''pong_ROOM'',
     channel_name = ''channel.three'', role = None, player_num = None \<rparr>"

section \<open>Properties of the engine\<close>

lemmas engine_consts =
  FIELD_WIDTH_def FIELD_HEIGHT_def PADDLE_WIDTH_def PADDLE_HEIGHT_def BALL_SIZE_def
  INITIAL_BALL_SPEED_def SPEED_INCREASE_FACTOR_def MAX_BALL_SPEED_def PADDLE_SPEED_def

lemmas step_defs =
  update_def update_ball_def update_paddles_def move_ball_def wall_collisions_def
  check_paddle_collision_def check_scoring_def handle_score_def reset_ball_def no_events_def
  Let_def engine_consts


subsection \<open>What each step leaves unchanged\<close>

lemma reset_ball_frame [simp]:
  "status (reset_ball a n s) = status s"
  "points_limit (reset_ball a n s) = points_limit s"
  "score_p1 (reset_ball a n s) = score_p1 s"
  "score_p2 (reset_ball a n s) = score_p2 s"
  "winner (reset_ball a n s) = winner s"
  "p1_y (reset_ball a n s) = p1_y s"
  "p2_y (reset_ball a n s) = p2_y s"
  by (simp_all add: reset_ball_def Let_def)

lemma reset_ball_position [simp]:
  "ball_x (reset_ball a n s) = 50" "ball_y (reset_ball a n s) = 50"
  by (simp_all add: reset_ball_def Let_def)

lemma handle_score_frame [simp]:
  "points_limit (handle_score a s) = points_limit s"
  "score_p1 (handle_score a s) = score_p1 s"
  "score_p2 (handle_score a s) = score_p2 s"
  "p1_y (handle_score a s) = p1_y s"
  "p2_y (handle_score a s) = p2_y s"
  by (simp_all add: handle_score_def Let_def)

lemma update_paddles_eq:
  "update_paddles dt s =
   s\<lparr>p1_y := max (PADDLE_HEIGHT / 2) (min (FIELD_HEIGHT - PADDLE_HEIGHT / 2)
           (if p1_direction s = ''up'' then p1_y s - PADDLE_SPEED
            else if p1_direction s = ''down'' then p1_y s + PADDLE_SPEED else p1_y s)),
     p2_y := max (PADDLE_HEIGHT / 2) (min (FIELD_HEIGHT - PADDLE_HEIGHT / 2)
           (if p2_direction s = ''up'' then p2_y s - PADDLE_SPEED
            else if p2_direction s = ''down'' then p2_y s + PADDLE_SPEED else p2_y s))\<rparr>"
proof -
  consider "p1_direction s = ''up''" | "p1_direction s \<noteq> ''up''" "p1_direction s = ''down''"
    | "p1_direction s \<noteq> ''up''" "p1_direction s \<noteq> ''down''" by blast
  then show ?thesis
  proof cases
    case 1
    then show ?thesis by (cases "p2_direction s = ''up''"; cases "p2_direction s = ''down''")
      (simp_all add: update_paddles_def Let_def)
  next
    case 2
    then show ?thesis by (cases "p2_direction s = ''up''"; cases "p2_direction s = ''down''")
      (simp_all add: update_paddles_def Let_def)
  next
    case 3
    then show ?thesis by (cases "p2_direction s = ''up''"; cases "p2_direction s = ''down''")
      (simp_all add: update_paddles_def Let_def)
  qed
qed

lemma update_paddles_frame [simp]:
  "status (update_paddles dt s) = status s"
  "points_limit (update_paddles dt s) = points_limit s"
  "score_p1 (update_paddles dt s) = score_p1 s"
  "score_p2 (update_paddles dt s) = score_p2 s"
  "winner (update_paddles dt s) = winner s"
  by (simp_all add: update_paddles_eq)

lemma move_ball_frame [simp]:
  "status (move_ball s) = status s"
  "points_limit (move_ball s) = points_limit s"
  "score_p1 (move_ball s) = score_p1 s"
  "score_p2 (move_ball s) = score_p2 s"
  "winner (move_ball s) = winner s"
  "p1_y (move_ball s) = p1_y s"
  "p2_y (move_ball s) = p2_y s"
  by (simp_all add: move_ball_def)

lemma wall_collisions_frame [simp]:
  "status (fst (wall_collisions se)) = status (fst se)"
  "points_limit (fst (wall_collisions se)) = points_limit (fst se)"
  "score_p1 (fst (wall_collisions se)) = score_p1 (fst se)"
  "score_p2 (fst (wall_collisions se)) = score_p2 (fst se)"
  "winner (fst (wall_collisions se)) = winner (fst se)"
  "p1_y (fst (wall_collisions se)) = p1_y (fst se)"
  "p2_y (fst (wall_collisions se)) = p2_y (fst se)"
  "score (snd (wall_collisions se)) = score (snd se)"
  by (simp_all add: wall_collisions_def Let_def split: prod.splits)

lemma check_paddle_collision_frame [simp]:
  "status (fst (check_paddle_collision n se)) = status (fst se)"
  "points_limit (fst (check_paddle_collision n se)) = points_limit (fst se)"
  "score_p1 (fst (check_paddle_collision n se)) = score_p1 (fst se)"
  "score_p2 (fst (check_paddle_collision n se)) = score_p2 (fst se)"
  "winner (fst (check_paddle_collision n se)) = winner (fst se)"
  "p1_y (fst (check_paddle_collision n se)) = p1_y (fst se)"
  "p2_y (fst (check_paddle_collision n se)) = p2_y (fst se)"
  "score (snd (check_paddle_collision n se)) = score (snd se)"
  by (simp_all add: check_paddle_collision_def Let_def split: prod.splits)

lemma before_scoring_frame [simp]:
  "status (fst (before_scoring dt s)) = status s"
  "points_limit (fst (before_scoring dt s)) = points_limit s"
  "score_p1 (fst (before_scoring dt s)) = score_p1 s"
  "score_p2 (fst (before_scoring dt s)) = score_p2 s"
  "winner (fst (before_scoring dt s)) = winner s"
  "p1_y (fst (before_scoring dt s)) = p1_y (update_paddles dt s)"
  "p2_y (fst (before_scoring dt s)) = p2_y (update_paddles dt s)"
  "score (snd (before_scoring dt s)) = None"
  by (simp_all add: before_scoring_def no_events_def)

lemma check_scoring_frame [simp]:
  "p1_y (fst (check_scoring a se)) = p1_y (fst se)"
  "p2_y (fst (check_scoring a se)) = p2_y (fst se)"
  "points_limit (fst (check_scoring a se)) = points_limit (fst se)"
  by (simp_all add: check_scoring_def split: prod.splits)

lemma update_playing:
  "status s = Playing \<Longrightarrow>
   update dt a s =
     (snd (check_scoring a (before_scoring dt s)), fst (check_scoring a (before_scoring dt s)))"
  by (simp add: update_def update_ball_def before_scoring_def split: prod.splits)

lemma update_idle: "status s \<noteq> Playing \<Longrightarrow> update dt a s = (no_events, s)"
  by (simp add: update_def)

subsection \<open>Paddles stay inside the field\<close>

lemma clamp_bounds:
  "(lo::real) \<le> hi \<Longrightarrow> lo \<le> max lo (min hi y) \<and> max lo (min hi y) \<le> hi"
  by simp

lemma half_height_le: "PADDLE_HEIGHT / 2 \<le> FIELD_HEIGHT - PADDLE_HEIGHT / 2"
  by (simp add: PADDLE_HEIGHT_def FIELD_HEIGHT_def)

lemma update_paddles_in_range: "paddles_in_range (update_paddles dt s)"
  unfolding paddles_in_range_def
  by (subst (1 2 3 4) update_paddles_eq) (simp add: PADDLE_HEIGHT_def FIELD_HEIGHT_def)

lemma update_playing_in_range:
  "status s = Playing \<Longrightarrow> paddles_in_range (snd (update dt a s))"
  using update_paddles_in_range [of dt s]
  by (simp add: update_playing paddles_in_range_def)

lemma update_keeps_range:
  "paddles_in_range s \<Longrightarrow> paddles_in_range (snd (update dt a s))"
proof (cases "status s = Playing")
  case True
  then show ?thesis by (rule update_playing_in_range)
next
  case False
  moreover assume "paddles_in_range s"
  ultimately show ?thesis by (simp add: update_idle)
qed

lemma apply_op_keeps_range: "paddles_in_range s \<Longrightarrow> paddles_in_range (apply_op x s)"
proof (cases x)
  case (Update dt a)
  then show "paddles_in_range s \<Longrightarrow> ?thesis" by (simp add: update_keeps_range)
qed (simp_all add: paddles_in_range_def player_join_def player_ready_def start_game_def
      set_paddle_direction_def Let_def)

lemma run_ops_keeps_range: "paddles_in_range s \<Longrightarrow> paddles_in_range (run_ops xs s)"
  by (induction xs arbitrary: s) (simp_all add: apply_op_keeps_range)

lemma init_in_range: "paddles_in_range (init_engine code limit)"
  by (simp add: paddles_in_range_def init_engine_def engine_consts)

lemma in_range_bounds:
  "paddles_in_range s \<longleftrightarrow> 10 \<le> p1_y s \<and> p1_y s \<le> 90 \<and> 10 \<le> p2_y s \<and> p2_y s \<le> 90"
  by (simp add: paddles_in_range_def PADDLE_HEIGHT_def FIELD_HEIGHT_def)

subsection \<open>Scores, status and winner\<close>

lemma check_scoring_pair:
  "check_scoring a (b, ev) =
     (if ball_x b \<le> 0
      then (handle_score a (b\<lparr>score_p2 := score_p2 b + 1\<rparr>), ev\<lparr>score := Some 2\<rparr>)
      else if ball_x b \<ge> FIELD_WIDTH
      then (handle_score a (b\<lparr>score_p1 := score_p1 b + 1\<rparr>), ev\<lparr>score := Some 1\<rparr>)
      else (b, ev))"
  by (simp add: check_scoring_def)

lemma before_scoring_obtain:
  obtains b ev where "before_scoring dt s = (b, ev)" "status b = status s"
    "points_limit b = points_limit s" "score_p1 b = score_p1 s" "score_p2 b = score_p2 s"
    "winner b = winner s" "score ev = None"
proof -
  obtain b ev where be: "before_scoring dt s = (b, ev)" by fastforce
  have "status (fst (before_scoring dt s)) = status s"
    "points_limit (fst (before_scoring dt s)) = points_limit s"
    "score_p1 (fst (before_scoring dt s)) = score_p1 s"
    "score_p2 (fst (before_scoring dt s)) = score_p2 s"
    "winner (fst (before_scoring dt s)) = winner s"
    "score (snd (before_scoring dt s)) = None"
    by simp_all
  then show thesis using that [of b ev] be by simp
qed

lemma handle_score_status:
  "status (handle_score a s) =
     (if score_p1 s \<ge> points_limit s \<or> score_p2 s \<ge> points_limit s then Finished else status s)"
  by (simp add: handle_score_def Let_def)

lemma handle_score_winner:
  "winner (handle_score a s) =
     (if score_p1 s \<ge> points_limit s then Some ''Player 1''
      else if score_p2 s \<ge> points_limit s then Some ''Player 2'' else winner s)"
  by (simp add: handle_score_def Let_def)

lemma update_keeps_decided:
  assumes "decided s"
  shows "decided (snd (update dt a s))"
proof (cases "status s = Playing")
  case False
  with assms show ?thesis by (simp add: update_idle)
next
  case True
  obtain b ev where be: "before_scoring dt s = (b, ev)" "status b = status s"
    "points_limit b = points_limit s" "score_p1 b = score_p1 s" "score_p2 b = score_p2 s"
    "winner b = winner s" "score ev = None"
    by (rule before_scoring_obtain)
  from assms True have lt: "0 < points_limit s" "0 \<le> score_p1 s" "0 \<le> score_p2 s"
    "score_p1 s < points_limit s" "score_p2 s < points_limit s" "winner s = None"
    by (auto simp: decided_def)
  show ?thesis
    using True be lt
    by (simp add: update_playing check_scoring_pair decided_def handle_score_status
        handle_score_winner)
qed

lemma run_updates_keeps_decided: "decided s \<Longrightarrow> decided (run_updates ts s)"
proof (induction ts arbitrary: s)
  case Nil
  then show ?case by simp
next
  case (Cons t ts)
  then show ?case by (cases t) (simp add: update_keeps_decided)
qed

lemma fresh_decided: "fresh_playing s \<Longrightarrow> 0 < points_limit s \<Longrightarrow> decided s"
  by (simp add: fresh_playing_def decided_def)

lemma winning_point:
  assumes "status t = Playing" "points_limit t = 5" "score_p1 t = 4"
    "score (fst (update dt a t)) = Some 1"
  shows "score_p1 (snd (update dt a t)) = 5 \<and> status (snd (update dt a t)) = Finished \<and>
         winner (snd (update dt a t)) = Some ''Player 1''"
proof -
  obtain b ev where be: "before_scoring dt t = (b, ev)" "status b = status t"
    "points_limit b = points_limit t" "score_p1 b = score_p1 t" "score_p2 b = score_p2 t"
    "winner b = winner t" "score ev = None"
    by (rule before_scoring_obtain)
  from assms(4) have "score (snd (check_scoring a (b, ev))) = Some 1"
    by (simp add: update_playing assms(1) be)
  then have "\<not> ball_x b \<le> 0" "ball_x b \<ge> FIELD_WIDTH"
    using be(7) by (auto simp: check_scoring_pair split: if_splits)
  then show ?thesis
    using assms(1-3) be
    by (simp add: update_playing check_scoring_pair handle_score_status handle_score_winner)
qed

subsection \<open>Status\<close>

lemma status_player_join:
  "status (snd (player_join n s)) = status s \<or> status (snd (player_join n s)) = WaitingForReady"
  by (simp add: player_join_def Let_def)

lemma status_start_game [simp]: "status (start_game c a s) = Playing"
  by (simp add: start_game_def)

lemma status_player_ready:
  "status (player_ready c a n s) = status s \<or>
   status s = WaitingForReady \<and> status (player_ready c a n s) = Playing"
  by (simp add: player_ready_def Let_def)

lemma status_set_paddle_direction [simp]: "status (set_paddle_direction n d s) = status s"
  by (simp add: set_paddle_direction_def)

lemma status_update:
  "status (snd (update dt a s)) = status s \<or>
   status s = Playing \<and> status (snd (update dt a s)) = Finished"
proof (cases "status s = Playing")
  case False
  then show ?thesis by (simp add: update_idle)
next
  case True
  obtain b ev where be: "before_scoring dt s = (b, ev)" "status b = status s"
    "points_limit b = points_limit s" "score_p1 b = score_p1 s" "score_p2 b = score_p2 s"
    "winner b = winner s" "score ev = None"
    by (rule before_scoring_obtain)
  show ?thesis
    using True be(1,2) by (simp add: update_playing check_scoring_pair handle_score_status)
qed

lemma guarded_step_mono:
  "guarded x s \<Longrightarrow> status_rank (status s) \<le> status_rank (status (apply_op x s))"
proof (cases x)
  case (PlayerJoin n)
  assume "guarded x s"
  with PlayerJoin show ?thesis using status_player_join [of n s] by auto
next
  case (PlayerReady c a n)
  then show ?thesis using status_player_ready [of c a n s] by auto
next
  case (SetPaddleDirection n d)
  then show ?thesis by simp
next
  case (Update dt a)
  then show ?thesis using status_update [of dt a s] by auto
next
  case (StartGame c a)
  assume "guarded x s"
  with StartGame show ?thesis by (cases "status s") simp_all
qed

lemma guarded_run_mono:
  "guarded_run xs s \<Longrightarrow> status_rank (status s) \<le> status_rank (status (run_ops xs s))"
proof (induction xs arbitrary: s)
  case Nil
  then show ?case by simp
next
  case (Cons x xs)
  then have "status_rank (status s) \<le> status_rank (status (apply_op x s))"
    and "status_rank (status (apply_op x s)) \<le> status_rank (status (run_ops xs (apply_op x s)))"
    by (simp_all add: guarded_step_mono)
  then show ?case by simp
qed

lemma run_ops_append: "run_ops (xs @ ys) s = run_ops ys (run_ops xs s)"
  by (induction xs arbitrary: s) simp_all

lemma guarded_run_append:
  "guarded_run (xs @ ys) s \<longleftrightarrow> guarded_run xs s \<and> guarded_run ys (run_ops xs s)"
  by (induction xs arbitrary: s) simp_all

lemmas lifecycle_defs = player_join_def player_ready_def start_game_def set_paddle_direction_def

subsection \<open>Serve\<close>

lemma reset_ball_direction:
  assumes "- pi / 4 \<le> a" "a \<le> pi / 4"
  shows "0 < ball_velocity_x (reset_ball a n s) \<longleftrightarrow> n = 2"
    and "ball_velocity_x (reset_ball a n s) < 0 \<longleftrightarrow> n \<noteq> 2"
proof -
  have "0 < cos a"
    using assms pi_gt_zero by (intro cos_gt_zero_pi) linarith+
  then show "0 < ball_velocity_x (reset_ball a n s) \<longleftrightarrow> n = 2"
    and "ball_velocity_x (reset_ball a n s) < 0 \<longleftrightarrow> n \<noteq> 2"
    by (simp_all add: reset_ball_def Let_def INITIAL_BALL_SPEED_def zero_less_mult_iff
        mult_less_0_iff)
qed

subsection \<open>The paddle check as detection and handling\<close>

lemma if_guard: "(if \<not> T then X else if P then Y else X) = (if T \<and> P then Y else X)"
  by simp

lemma check_paddle_collision_cases:
  "check_paddle_collision n (s, ev) =
     (if hits n s then (nudge n (renormalise (flip_and_spin n s)), ev\<lparr>paddle_hit := True\<rparr>)
      else (s, ev))"
  unfolding check_paddle_collision_def hits_def nudge_def renormalise_def flip_and_spin_def
    Let_def prod.case
  by (rule if_guard)

subsection \<open>Paddle hits\<close>


lemma speed_positive: "ball_velocity_x s \<noteq> 0 \<Longrightarrow> 0 < speed s"
  by (simp add: speed_def sum_power2_gt_zero_iff)

lemma new_speed_positive:
  "0 < c \<Longrightarrow> 0 < min (c * SPEED_INCREASE_FACTOR) MAX_BALL_SPEED"
  by (simp add: SPEED_INCREASE_FACTOR_def MAX_BALL_SPEED_def)

lemma renormalise_moving:
  assumes "ball_velocity_x t \<noteq> 0"
  shows "renormalise t =
    t\<lparr>ball_velocity_x := ball_velocity_x t / speed t *
          min (speed t * SPEED_INCREASE_FACTOR) MAX_BALL_SPEED,
      ball_velocity_y := ball_velocity_y t / speed t *
          min (speed t * SPEED_INCREASE_FACTOR) MAX_BALL_SPEED\<rparr>"
  using speed_positive [OF assms]
  unfolding renormalise_def Let_def speed_def by (simp only: if_True)


lemma renormalise_sign:
  assumes "ball_velocity_x t \<noteq> 0"
  shows "0 < ball_velocity_x (renormalise t) \<longleftrightarrow> 0 < ball_velocity_x t"
proof -
  define k where "k = min (speed t * SPEED_INCREASE_FACTOR) MAX_BALL_SPEED / speed t"
  have c: "0 < speed t" by (rule speed_positive [OF assms])
  have "0 < min (speed t * SPEED_INCREASE_FACTOR) MAX_BALL_SPEED"
    by (rule new_speed_positive [OF c])
  with c have k: "0 < k" by (simp add: k_def)
  have "ball_velocity_x (renormalise t) = ball_velocity_x t * k"
    by (subst renormalise_moving [OF assms]) (simp add: k_def)
  then show ?thesis
    using k by (simp add: zero_less_mult_iff)
qed

lemma flip_and_spin_fields [simp]:
  "ball_velocity_x (flip_and_spin n s) = - ball_velocity_x s"
  "ball_x (flip_and_spin n s) = ball_x s"
  by (simp_all add: flip_and_spin_def Let_def)

lemma nudge_fields [simp]:
  "ball_velocity_x (nudge n t) = ball_velocity_x t"
  "ball_velocity_y (nudge n t) = ball_velocity_y t"
  "ball_x (nudge n t) = (if n = 1 then 41 / 10 else 959 / 10)"
  by (simp_all add: nudge_def Let_def engine_consts)

lemma speed_nudge [simp]: "speed (nudge n t) = speed t"
  by (simp add: speed_def)





lemma wall_collisions_paddle_hit [simp]:
  "paddle_hit (snd (wall_collisions se)) = paddle_hit (snd se)"
  by (simp add: wall_collisions_def Let_def split: prod.splits)

lemma check_scoring_paddle_hit [simp]:
  "paddle_hit (snd (check_scoring a se)) = paddle_hit (snd se)"
  by (simp add: check_scoring_def split: prod.splits)

lemma check_scoring_inside:
  "0 < ball_x b \<Longrightarrow> ball_x b < FIELD_WIDTH \<Longrightarrow> check_scoring a (b, ev) = (b, ev)"
  by (simp add: check_scoring_def)










subsection \<open>A tick without events\<close>

lemma wall_hit_check_paddle_collision [simp]:
  "wall_hit (snd (check_paddle_collision n se)) = wall_hit (snd se)"
  by (cases se) (simp add: check_paddle_collision_cases)

lemma wall_hit_check_scoring [simp]:
  "wall_hit (snd (check_scoring a se)) = wall_hit (snd se)"
  by (cases se) (simp add: check_scoring_pair)

lemma paddle_hit_iff:
  "paddle_hit (snd (check_paddle_collision n (t, e))) \<longleftrightarrow> hits n t \<or> paddle_hit e"
  by (simp add: check_paddle_collision_cases)

lemma wall_hit_iff:
  "wall_hit (snd (wall_collisions (m, e))) \<longleftrightarrow>
     (ball_y m - BALL_SIZE / 2 \<le> 0 \<or> ball_y m + BALL_SIZE / 2 \<ge> FIELD_HEIGHT) \<or> wall_hit e"
  by (simp add: wall_collisions_def Let_def)

lemma wall_miss:
  "\<not> ball_y m - BALL_SIZE / 2 \<le> 0 \<Longrightarrow> \<not> ball_y m + BALL_SIZE / 2 \<ge> FIELD_HEIGHT \<Longrightarrow>
   wall_collisions (m, e) = (m, e)"
  by (simp add: wall_collisions_def Let_def)

lemma quiet_wall:
  assumes "\<not> wall_hit (snd (wall_collisions (m, e)))"
  shows "wall_collisions (m, e) = (m, e)"
proof -
  from assms have "\<not> ball_y m - BALL_SIZE / 2 \<le> 0" "\<not> ball_y m + BALL_SIZE / 2 \<ge> FIELD_HEIGHT"
    unfolding wall_hit_iff by blast+
  then show ?thesis by (rule wall_miss)
qed

lemma score_none_iff:
  "score (snd (check_scoring a (b, e))) = None \<longleftrightarrow>
     \<not> ball_x b \<le> 0 \<and> \<not> ball_x b \<ge> FIELD_WIDTH \<and> score e = None"
  by (simp add: check_scoring_pair)

lemma quiet_scoring:
  assumes "score (snd (check_scoring a (b, e))) = None"
  shows "check_scoring a (b, e) = (b, e)"
proof -
  from assms have "0 < ball_x b" "ball_x b < FIELD_WIDTH"
    unfolding score_none_iff by simp_all
  then show ?thesis by (rule check_scoring_inside)
qed

lemma update_paddles_ball [simp]:
  "ball_x (update_paddles dt s) = ball_x s"
  "ball_y (update_paddles dt s) = ball_y s"
  "ball_velocity_x (update_paddles dt s) = ball_velocity_x s"
  "ball_velocity_y (update_paddles dt s) = ball_velocity_y s"
  by (simp_all add: update_paddles_eq)

lemma update_paddles_step:
  "p1_y (update_paddles dt s) =
     max (PADDLE_HEIGHT / 2) (min (FIELD_HEIGHT - PADDLE_HEIGHT / 2)
       (p1_y s + paddle_step (p1_direction s)))"
  "p2_y (update_paddles dt s) =
     max (PADDLE_HEIGHT / 2) (min (FIELD_HEIGHT - PADDLE_HEIGHT / 2)
       (p2_y s + paddle_step (p2_direction s)))"
  by (simp_all add: update_paddles_eq paddle_step_def)

lemma update_paddles_after_tick:
  assumes "status s = Playing"
  shows "p1_y (snd (update dt a s)) = p1_y (update_paddles dt s)"
    and "p2_y (snd (update dt a s)) = p2_y (update_paddles dt s)"
  by (simp_all add: update_playing [OF assms])

lemma quiet_tick:
  assumes "status s = Playing"
    and "\<not> paddle_hit (fst (update dt a s))" "\<not> wall_hit (fst (update dt a s))"
    and "score (fst (update dt a s)) = None"
  shows "snd (update dt a s) = move_ball (update_paddles dt s)"
proof -
  let ?m = "move_ball (update_paddles dt s)"
  obtain w e1 where w: "wall_collisions (?m, no_events) = (w, e1)" by fastforce
  obtain c1 e2 where c1: "check_paddle_collision 1 (w, e1) = (c1, e2)" by fastforce
  obtain c2 e3 where c2: "check_paddle_collision 2 (c1, e2) = (c2, e3)" by fastforce
  have upd: "update dt a s = (snd (check_scoring a (c2, e3)), fst (check_scoring a (c2, e3)))"
    by (simp add: update_playing [OF assms(1)] before_scoring_def w c1 c2)
  have "wall_hit (snd (check_scoring a (check_paddle_collision 2 (check_paddle_collision 1
      (wall_collisions (?m, no_events)))))) = wall_hit (snd (wall_collisions (?m, no_events)))"
    by simp
  with assms(3) have "\<not> wall_hit (snd (wall_collisions (?m, no_events)))"
    by (simp add: upd w c1 c2)
  then have w_id: "w = ?m" "e1 = no_events"
    using quiet_wall [of ?m no_events] w by simp_all
  from assms(2) have "\<not> paddle_hit e3"
    by (simp add: upd)
  then have "\<not> hits 2 c1" "\<not> paddle_hit e2"
    using paddle_hit_iff [of 2 c1 e2] by (simp_all add: c2)
  then have c2_id: "c2 = c1" "e3 = e2"
    using c2 by (simp_all add: check_paddle_collision_cases)
  have "\<not> hits 1 w"
    using paddle_hit_iff [of 1 w e1] \<open>\<not> paddle_hit e2\<close> by (simp add: c1)
  then have c1_id: "c1 = w" "e2 = e1"
    using c1 by (simp_all add: check_paddle_collision_cases)
  from assms(4) have "check_scoring a (c2, e3) = (c2, e3)"
    by (intro quiet_scoring) (simp add: upd)
  then show ?thesis
    by (simp add: upd c2_id c1_id w_id)
qed

subsection \<open>The claims about a single tick and about runs of ticks\<close>

text \<open>
  C2. In a match with a positive limit run by update ticks from a fresh playing state, the
  status is finished exactly when exactly one of the two scores equals the limit, and the
  winner is then that player; until then the status is playing and there is no winner.
  With limit 5 and 4 points for player 1, a tick on which player 1 scores gives 5 points,
  status finished and winner "Player 1".
\<close>

theorem finished_iff_limit_reached:
  assumes "fresh_playing s" and "0 < points_limit s"
  shows "(status (run_updates ts s) = Finished \<longleftrightarrow> one_at_limit (run_updates ts s)) \<and>
    (status (run_updates ts s) = Finished \<and> score_p1 (run_updates ts s) = points_limit s
       \<longrightarrow> winner (run_updates ts s) = Some ''Player 1'') \<and>
    (status (run_updates ts s) = Finished \<and> score_p2 (run_updates ts s) = points_limit s
       \<longrightarrow> winner (run_updates ts s) = Some ''Player 2'') \<and>
    (status (run_updates ts s) \<noteq> Finished
       \<longrightarrow> status (run_updates ts s) = Playing \<and> winner (run_updates ts s) = None) \<and>
    points_limit (run_updates ts s) = points_limit s \<and>
    (status t = Playing \<and> points_limit t = 5 \<and> score_p1 t = 4 \<and>
     score (fst (update dt a t)) = Some 1
       \<longrightarrow> score_p1 (snd (update dt a t)) = 5 \<and> status (snd (update dt a t)) = Finished \<and>
           winner (snd (update dt a t)) = Some ''Player 1'')"
proof -
  have lim: "points_limit (run_updates ts' s') = points_limit s'" for ts' s'
  proof (induction ts' arbitrary: s')
    case Nil
    then show ?case by simp
  next
    case (Cons x xs)
    show ?case
      by (cases x; cases "status s' = Playing") (simp_all add: Cons update_playing update_idle)
  qed
  have "decided (run_updates ts s)"
    using assms by (intro run_updates_keeps_decided fresh_decided)
  then show ?thesis
    using winning_point [of t dt a] lim [of ts s]
    by (auto simp: decided_def one_at_limit_def)
qed

theorem finished_iff_limit_reached_witness:
  "fresh_playing (rally\<lparr>points_limit := 1, ball_x := 995 / 10, ball_y := 10, ball_velocity_x := 15 / 10\<rparr>) \<and>
   status (run_updates [(1 / 60, 0)]
     (rally\<lparr>points_limit := 1, ball_x := 995 / 10, ball_y := 10, ball_velocity_x := 15 / 10\<rparr>)) = Finished \<and>
   winner (run_updates [(1 / 60, 0)]
     (rally\<lparr>points_limit := 1, ball_x := 995 / 10, ball_y := 10, ball_velocity_x := 15 / 10\<rparr>)) = Some ''Player 1'' \<and>
   status match_point_state = Playing \<and> points_limit match_point_state = 5 \<and>
   score_p1 match_point_state = 4 \<and>
   score (fst (update (1 / 60) 0 match_point_state)) = Some 1 \<and>
   score_p1 (snd (update (1 / 60) 0 match_point_state)) = 5 \<and>
   status (snd (update (1 / 60) 0 match_point_state)) = Finished \<and>
   winner (snd (update (1 / 60) 0 match_point_state)) = Some ''Player 1''"
proof -
  let ?s = "rally\<lparr>points_limit := 1, ball_x := 995 / 10, ball_y := 10, ball_velocity_x := 15 / 10\<rparr>"
  have fresh: "fresh_playing ?s" "0 < points_limit ?s"
    by (simp_all add: fresh_playing_def rally_def init_engine_def)
  have scored: "score (fst (update (1 / 60) 0 match_point_state)) = Some 1"
    by (simp add: match_point_state_def rally_def init_engine_def step_defs)
  have pre: "status match_point_state = Playing" "points_limit match_point_state = 5"
    "score_p1 match_point_state = 4"
    by (simp_all add: match_point_state_def rally_def init_engine_def)
  have run: "status (run_updates [(1 / 60, 0)] ?s) = Finished"
    "score_p1 (run_updates [(1 / 60, 0)] ?s) = 1"
    by (simp_all add: rally_def init_engine_def step_defs)
  show ?thesis
    using finished_iff_limit_reached [OF fresh, of "[(1 / 60, 0)]" match_point_state "1 / 60" 0]
      fresh(1) scored pre run
    by simp
qed

text \<open>
  C4 (as amended). On a tick with a score event that does not end the match the ball is
  afterwards at exactly (50, 50). On the tick of the winning point the match is finished
  and the ball is not moved back: it stays at or beyond the edge it crossed.
\<close>

theorem score_resets_ball:
  assumes "status s = Playing" and "score (fst (update dt a s)) \<noteq> None"
  shows "(status (snd (update dt a s)) = Playing \<longrightarrow>
            ball_x (snd (update dt a s)) = 50 \<and> ball_y (snd (update dt a s)) = 50) \<and>
         (status (snd (update dt a s)) \<noteq> Playing \<longrightarrow>
            status (snd (update dt a s)) = Finished \<and>
            (ball_x (snd (update dt a s)) \<le> 0 \<or> FIELD_WIDTH \<le> ball_x (snd (update dt a s))))"
proof -
  obtain b ev where be: "before_scoring dt s = (b, ev)" "status b = status s"
    "points_limit b = points_limit s" "score_p1 b = score_p1 s" "score_p2 b = score_p2 s"
    "winner b = winner s" "score ev = None"
    by (rule before_scoring_obtain)
  from assms(2) have "score (snd (check_scoring a (b, ev))) \<noteq> None"
    by (simp add: update_playing assms(1) be)
  then have "ball_x b \<le> 0 \<or> ball_x b \<ge> FIELD_WIDTH"
    using be(7) by (auto simp: check_scoring_pair split: if_splits)
  then show ?thesis
    using assms(1) be(1,2)
    by (auto simp: update_playing check_scoring_pair handle_score_def Let_def)
qed

theorem score_resets_ball_witness:
  "status tie_serve_state = Playing \<and>
   score (fst (update (1 / 60) 0 tie_serve_state)) \<noteq> None \<and>
   status (snd (update (1 / 60) 0 tie_serve_state)) = Playing \<and>
   ball_x (snd (update (1 / 60) 0 tie_serve_state)) = 50 \<and>
   ball_y (snd (update (1 / 60) 0 tie_serve_state)) = 50"
proof -
  have pre: "status tie_serve_state = Playing"
    by (simp add: tie_serve_state_def rally_def init_engine_def)
  have ev: "score (fst (update (1 / 60) 0 tie_serve_state)) \<noteq> None"
    "status (snd (update (1 / 60) 0 tie_serve_state)) = Playing"
    by (simp_all add: tie_serve_state_def rally_def init_engine_def step_defs)
  show ?thesis
    using score_resets_ball [OF pre ev(1)] pre ev by simp
qed

text \<open>
  The claim as first stated also covers the tick of the winning point; there the ball is
  left where it crossed the edge.
\<close>

theorem winning_tick_ball_not_reset:
  "status match_point_state = Playing \<and>
   score (fst (update (1 / 60) 0 match_point_state)) = Some 1 \<and>
   status (snd (update (1 / 60) 0 match_point_state)) = Finished \<and>
   ball_x (snd (update (1 / 60) 0 match_point_state)) = 101 \<and>
   ball_y (snd (update (1 / 60) 0 match_point_state)) = 10"
  by (simp add: match_point_state_def rally_def init_engine_def step_defs)

text \<open>
  C6. After any sequence of engine operations from the initial state, and after any update
  of a playing state whatever its paddle positions were, both paddle centres lie in
  [10, 90], that is between half the paddle height and the field height less half the
  paddle height.
\<close>

theorem paddles_clamped:
  "10 \<le> p1_y (run_ops xs (init_engine code limit)) \<and>
   p1_y (run_ops xs (init_engine code limit)) \<le> 90 \<and>
   10 \<le> p2_y (run_ops xs (init_engine code limit)) \<and>
   p2_y (run_ops xs (init_engine code limit)) \<le> 90 \<and>
   (status s = Playing \<longrightarrow>
      10 \<le> p1_y (snd (update dt angle s)) \<and> p1_y (snd (update dt angle s)) \<le> 90 \<and>
      10 \<le> p2_y (snd (update dt angle s)) \<and> p2_y (snd (update dt angle s)) \<le> 90)"
  using run_ops_keeps_range [OF init_in_range, of xs code limit]
    update_playing_in_range [of s dt angle]
  by (simp add: in_range_bounds)

theorem paddles_clamped_witness:
  "status (rally\<lparr>p1_y := 5, p1_direction := ''up'', p2_y := 200\<rparr>) = Playing \<and>
   10 \<le> p1_y (snd (update (1 / 60) 0 (rally\<lparr>p1_y := 5, p1_direction := ''up'', p2_y := 200\<rparr>))) \<and>
   p2_y (snd (update (1 / 60) 0 (rally\<lparr>p1_y := 5, p1_direction := ''up'', p2_y := 200\<rparr>))) \<le> 90"
proof -
  have "status (rally\<lparr>p1_y := 5, p1_direction := ''up'', p2_y := 200\<rparr>) = Playing"
    by (simp add: rally_def init_engine_def)
  then show ?thesis
    using paddles_clamped [of "[]" "''ROOM''" 5
        "rally\<lparr>p1_y := 5, p1_direction := ''up'', p2_y := 200\<rparr>" "1 / 60" 0]
    by simp
qed

text \<open>
  C7. In a state whose status is not playing, update changes no field of the state and
  returns the event record with no paddle hit, no wall hit, no score and no game over.
\<close>

theorem update_not_playing_noop:
  "status s \<noteq> Playing \<Longrightarrow>
   snd (update dt angle s) = s \<and>
   \<not> paddle_hit (fst (update dt angle s)) \<and> \<not> wall_hit (fst (update dt angle s)) \<and>
   score (fst (update dt angle s)) = None \<and> \<not> game_over (fst (update dt angle s))"
  by (simp add: update_def no_events_def)

theorem update_not_playing_noop_witness:
  "status (rally\<lparr>status := Finished, p1_direction := ''up''\<rparr>) \<noteq> Playing \<and>
   snd (update (1 / 60) 0 (rally\<lparr>status := Finished, p1_direction := ''up''\<rparr>)) =
     rally\<lparr>status := Finished, p1_direction := ''up''\<rparr> \<and>
   score (fst (update (1 / 60) 0 (rally\<lparr>status := Finished, p1_direction := ''up''\<rparr>))) = None"
proof -
  have "status (rally\<lparr>status := Finished, p1_direction := ''up''\<rparr>) \<noteq> Playing"
    by (simp add: rally_def init_engine_def)
  then show ?thesis
    using update_not_playing_noop [of "rally\<lparr>status := Finished, p1_direction := ''up''\<rparr>" "1 / 60" 0]
    by simp
qed

text \<open>
  C10. The result of update, state and events, is the same for any two \<open>delta_time\<close>
  arguments. In a playing state each paddle moves by \<open>PADDLE_SPEED\<close> in its direction
  (not at all for any other direction value) and is then clamped, whatever
  \<open>delta_time\<close> is; and on a tick with no wall hit, no paddle hit and no score the ball
  has moved by exactly its velocity, which is unchanged.
\<close>

theorem update_ignores_delta_time:
  "update dt1 angle s = update dt2 angle s \<and>
   (status s = Playing \<longrightarrow>
      p1_y (snd (update dt1 angle s)) =
        max (PADDLE_HEIGHT / 2) (min (FIELD_HEIGHT - PADDLE_HEIGHT / 2)
          (p1_y s + paddle_step (p1_direction s))) \<and>
      p2_y (snd (update dt1 angle s)) =
        max (PADDLE_HEIGHT / 2) (min (FIELD_HEIGHT - PADDLE_HEIGHT / 2)
          (p2_y s + paddle_step (p2_direction s))) \<and>
      (\<not> paddle_hit (fst (update dt1 angle s)) \<and> \<not> wall_hit (fst (update dt1 angle s)) \<and>
       score (fst (update dt1 angle s)) = None \<longrightarrow>
         ball_x (snd (update dt1 angle s)) = ball_x s + ball_velocity_x s \<and>
         ball_y (snd (update dt1 angle s)) = ball_y s + ball_velocity_y s \<and>
         ball_velocity_x (snd (update dt1 angle s)) = ball_velocity_x s \<and>
         ball_velocity_y (snd (update dt1 angle s)) = ball_velocity_y s))"
proof -
  have paddles: "update_paddles dt1 = update_paddles dt2"
    by (rule ext) (simp only: update_paddles_def)
  have ball: "update_ball dt1 angle = update_ball dt2 angle"
    by (rule ext) (simp only: update_ball_def)
  have same: "update dt1 angle s = update dt2 angle s"
    unfolding update_def paddles ball by (rule refl)
  have "ball_x (move_ball (update_paddles dt1 s)) = ball_x s + ball_velocity_x s"
    "ball_y (move_ball (update_paddles dt1 s)) = ball_y s + ball_velocity_y s"
    "ball_velocity_x (move_ball (update_paddles dt1 s)) = ball_velocity_x s"
    "ball_velocity_y (move_ball (update_paddles dt1 s)) = ball_velocity_y s"
    by (simp_all add: move_ball_def)
  then show ?thesis
    using same quiet_tick [of s dt1 angle] update_paddles_after_tick [of s dt1 angle]
      update_paddles_step [of dt1 s]
    by simp
qed

theorem update_ignores_delta_time_witness:
  "update (1 / 60) 0 drifting = update 1 0 drifting \<and>
   status drifting = Playing \<and>
   \<not> paddle_hit (fst (update (1 / 60) 0 drifting)) \<and>
   \<not> wall_hit (fst (update (1 / 60) 0 drifting)) \<and>
   score (fst (update (1 / 60) 0 drifting)) = None \<and>
   p1_y (snd (update (1 / 60) 0 drifting)) = 485 / 10 \<and>
   p2_y (snd (update (1 / 60) 0 drifting)) = 515 / 10 \<and>
   ball_x (snd (update (1 / 60) 0 drifting)) = 508 / 10 \<and>
   ball_y (snd (update (1 / 60) 0 drifting)) = 503 / 10"
proof -
  have pre: "status drifting = Playing" "p1_y drifting = 50" "p2_y drifting = 50"
    "p1_direction drifting = ''up''" "p2_direction drifting = ''down''"
    "ball_x drifting = 50" "ball_y drifting = 50"
    "ball_velocity_x drifting = 8 / 10" "ball_velocity_y drifting = 3 / 10"
    by (simp_all add: drifting_def rally_def init_engine_def)
  have quiet: "\<not> paddle_hit (fst (update (1 / 60) 0 drifting))"
    "\<not> wall_hit (fst (update (1 / 60) 0 drifting))"
    "score (fst (update (1 / 60) 0 drifting)) = None"
    by (simp_all add: drifting_def rally_def init_engine_def step_defs)
  have same: "update (1 / 60) 0 drifting = update 1 0 drifting"
    using update_ignores_delta_time [of "1 / 60" 0 drifting 1] by (rule conjunct1)
  have moved: "p1_y (snd (update (1 / 60) 0 drifting)) = 485 / 10 \<and>
      p2_y (snd (update (1 / 60) 0 drifting)) = 515 / 10 \<and>
      ball_x (snd (update (1 / 60) 0 drifting)) = 508 / 10 \<and>
      ball_y (snd (update (1 / 60) 0 drifting)) = 503 / 10"
    using update_ignores_delta_time [of "1 / 60" 0 drifting 1, THEN conjunct2] pre quiet
    by (simp add: paddle_step_def engine_consts)
  show ?thesis
    using same moved pre(1) quiet by blast
qed

text \<open>
  Leaving aside \<open>player_join\<close> once the match has started and \<open>start_game\<close> once it
  has finished, no operation moves the status back.
\<close>

lemma guarded_run_never_regresses:
  assumes "guarded_run (xs @ ys) s"
  shows "status_rank (status (run_ops xs s)) \<le> status_rank (status (run_ops (xs @ ys) s)) \<and>
         (status (run_ops xs s) = Finished \<longrightarrow> status (run_ops (xs @ ys) s) = Finished)"
proof -
  from assms have "guarded_run ys (run_ops xs s)"
    by (simp add: guarded_run_append)
  then have le: "status_rank (status (run_ops xs s)) \<le> status_rank (status (run_ops (xs @ ys) s))"
    unfolding run_ops_append by (rule guarded_run_mono)
  moreover have "status (run_ops (xs @ ys) s) = Finished" if "status (run_ops xs s) = Finished"
    using le that by (cases "status (run_ops (xs @ ys) s)") simp_all
  ultimately show ?thesis by blast
qed

text \<open>
  C1. The claim says that no operation ever moves the status back. \<open>player_join\<close> does:
  it sets waiting_for_ready whenever the other slot is connected, without looking at the
  status, where \<open>player_ready\<close> tests the status first. From the initial state, join 1,
  join 2, ready 1, ready 2 reach playing, and a further join 1 gives waiting_for_ready.
  The same happens to a finished match. The session handler makes this call: a join for
  the player role in a room whose match is playing and whose slot 1 has been vacated
  broadcasts waiting_for_ready.
\<close>

theorem rejoin_regresses_status:
  "status (run_ops [PlayerJoin 1, PlayerJoin 2, PlayerReady 1 0 1, PlayerReady 1 0 2]
      (init_engine ''ROOM'' 5)) = Playing \<and>
   status (run_ops [PlayerJoin 1, PlayerJoin 2, PlayerReady 1 0 1, PlayerReady 1 0 2, PlayerJoin 1]
      (init_engine ''ROOM'' 5)) = WaitingForReady \<and>
   status (snd (update (1 / 60) 0 match_point_state)) = Finished \<and>
   status (snd (player_join 2 (snd (update (1 / 60) 0 match_point_state)))) = WaitingForReady \<and>
   one_left_room = \<lparr> engine = Some rally, task = Some Running,
     players = [2 \<mapsto> ''channel.two''], observers = [] \<rparr> \<and>
   status rally = Playing \<and>
   snd (snd (handle_join_game newcomer [''ROOM'' \<mapsto> one_left_room]
     [''type'' \<mapsto> JStr ''join_game'', ''role'' \<mapsto> JStr ''player''])) =
     [Send (JoinedAsPlayer (Some 1) ''ROOM''),
      GroupSend ''pong_ROOM'' (StatusChange WaitingForReady)]"
proof -
  have a: "status (run_ops [PlayerJoin 1, PlayerJoin 2, PlayerReady 1 0 1, PlayerReady 1 0 2]
      (init_engine ''ROOM'' 5)) = Playing"
    "status (run_ops [PlayerJoin 1, PlayerJoin 2, PlayerReady 1 0 1, PlayerReady 1 0 2, PlayerJoin 1]
      (init_engine ''ROOM'' 5)) = WaitingForReady"
    by (simp_all add: init_engine_def lifecycle_defs reset_ball_def Let_def)
  have fin: "status (snd (update (1 / 60) 0 match_point_state)) = Finished"
    "player1_connected (snd (update (1 / 60) 0 match_point_state))"
    by (simp_all add: match_point_state_def rally_def init_engine_def step_defs)
  have b: "status (snd (player_join 2 (snd (update (1 / 60) 0 match_point_state)))) = WaitingForReady"
    using fin(2) by (simp add: player_join_def Let_def)
  have c: "one_left_room = \<lparr> engine = Some rally, task = Some Running,
     players = [2 \<mapsto> ''channel.two''], observers = [] \<rparr>" "status rally = Playing"
    by (simp_all add: one_left_room_def full_room_def rally_def)
  have d: "snd (snd (handle_join_game newcomer [''ROOM'' \<mapsto> one_left_room]
     [''type'' \<mapsto> JStr ''join_game'', ''role'' \<mapsto> JStr ''player''])) =
     [Send (JoinedAsPlayer (Some 1) ''ROOM''),
      GroupSend ''pong_ROOM'' (StatusChange WaitingForReady)]"
    by (simp add: handle_join_game_def newcomer_def one_left_room_def full_room_def rally_def
        init_engine_def player_join_def Let_def)
  show ?thesis
    using a fin(1) b c d by simp
qed

text \<open>
  C3. The claim says the serve after a point that does not end the match goes towards the
  player who conceded it. The engine picks the target by comparing the scores instead.
  At 1:0, when player 2 scores and ties the match, the next serve has positive horizontal
  velocity: it goes towards player 2, who has just scored.
\<close>

theorem serve_after_tie_goes_to_scorer:
  "score_p1 tie_serve_state = 1 \<and> score_p2 tie_serve_state = 0 \<and>
   points_limit tie_serve_state = 5 \<and>
   score (fst (update (1 / 60) 0 tie_serve_state)) = Some 2 \<and>
   score_p2 (snd (update (1 / 60) 0 tie_serve_state)) = 1 \<and>
   status (snd (update (1 / 60) 0 tie_serve_state)) = Playing \<and>
   ball_velocity_x (snd (update (1 / 60) 0 tie_serve_state)) = 8 / 10"
  by (simp add: tie_serve_state_def rally_def init_engine_def step_defs)




section \<open>Properties of the session handler\<close>

lemma join_full:
  assumes "active_rooms (conn_room_code self) = Some r" "asks_player data"
    "players r 1 \<noteq> None" "players r 2 \<noteq> None"
  shows "handle_join_game self active_rooms data =
    (self\<lparr>role := Some ''observer''\<rparr>,
     active_rooms(conn_room_code self \<mapsto>
       r\<lparr>engine := Some (engine_or_default self r),
         observers := observers r @ [channel_name self]\<rparr>),
     [Send (JoinedAsObserver (conn_room_code self)),
      GroupSend (room_group_name self) (StatusChange (status (engine_or_default self r)))])"
  using assms
  by (auto simp: handle_join_game_def asks_player_def engine_or_default_def Let_def)

lemma join_slot1:
  assumes "active_rooms (conn_room_code self) = Some r" "asks_player data"
    "players r 1 = None"
  shows "handle_join_game self active_rooms data =
    (self\<lparr>player_num := Some 1, role := Some ''player''\<rparr>,
     active_rooms(conn_room_code self \<mapsto>
       r\<lparr>engine := Some (snd (player_join 1 (engine_or_default self r))),
         players := (players r)(1 \<mapsto> channel_name self)\<rparr>),
     [Send (JoinedAsPlayer (Some 1) (conn_room_code self)),
      GroupSend (room_group_name self)
        (StatusChange (status (snd (player_join 1 (engine_or_default self r)))))])"
  using assms
  by (auto simp: handle_join_game_def asks_player_def engine_or_default_def Let_def)

lemma join_slot2:
  assumes "active_rooms (conn_room_code self) = Some r" "asks_player data"
    "players r 1 \<noteq> None" "players r 2 = None"
  shows "handle_join_game self active_rooms data =
    (self\<lparr>player_num := Some 2, role := Some ''player''\<rparr>,
     active_rooms(conn_room_code self \<mapsto>
       r\<lparr>engine := Some (snd (player_join 2 (engine_or_default self r))),
         players := (players r)(2 \<mapsto> channel_name self)\<rparr>),
     [Send (JoinedAsPlayer (Some 2) (conn_room_code self)),
      GroupSend (room_group_name self)
        (StatusChange (status (snd (player_join 2 (engine_or_default self r)))))])"
  using assms
  by (auto simp: handle_join_game_def asks_player_def engine_or_default_def Let_def)

lemma move_invalid:
  assumes "\<not> valid_direction (direction_of data)"
  shows "fst (receive_move_paddle self active_rooms data) = self"
    and "fst (snd (receive_move_paddle self active_rooms data)) = active_rooms"
    and "engine_created self active_rooms \<Longrightarrow>
         handle_move_paddle self active_rooms data = Inr (self, active_rooms, [])"
  using assms
  by (auto simp: receive_move_paddle_def handle_move_paddle_def valid_direction_def
      direction_of_def engine_created_def Let_def split: option.splits json.splits)

lemma move_valid:
  assumes "role self = Some ''player''" "player_num self = Some n" "n = 1 \<or> n = 2"
    "active_rooms (conn_room_code self) = Some r" "engine r = Some eng" "status eng = Playing"
    "direction_of data = JStr d" "valid_direction (JStr d)"
  shows "handle_move_paddle self active_rooms data =
     Inr (self, active_rooms(conn_room_code self \<mapsto>
            r\<lparr>engine := Some (set_paddle_direction n d eng)\<rparr>), [])"
  using assms
  by (auto simp: handle_move_paddle_def valid_direction_def direction_of_def Let_def
      split: option.splits)

lemma stored_after_set:
  "n = 1 \<or> n = 2 \<Longrightarrow> stored_direction n (set_paddle_direction n d eng) = d"
  by (auto simp: stored_direction_def set_paddle_direction_def)


lemma move_output_fixed:
  "snd (snd (receive_move_paddle self active_rooms data)) =
   snd (snd (receive_move_paddle self active_rooms data'))"
  by (auto simp: receive_move_paddle_def handle_move_paddle_def Let_def
      split: option.splits json.splits)

text \<open>
  C8. A \<open>move_paddle\<close> message whose direction is not one of up, down, stop changes
  neither the connection nor any room, and, the room's engine being there, is answered
  with nothing: no error and no other message. A direction up, down or stop sent by a
  connection with the player role and slot 1 or 2, while its room's match is playing, is
  stored as that player's paddle direction, and nothing else changes.
\<close>

theorem move_paddle_direction:
  "(\<not> valid_direction (direction_of data) \<longrightarrow>
      fst (receive_move_paddle self active_rooms data) = self \<and>
      fst (snd (receive_move_paddle self active_rooms data)) = active_rooms \<and>
      (engine_created self active_rooms \<longrightarrow>
         handle_move_paddle self active_rooms data = Inr (self, active_rooms, []) \<and>
         receive_move_paddle self active_rooms data = (self, active_rooms, []))) \<and>
   (valid_direction (JStr d) \<and> direction_of data = JStr d \<and>
    role self = Some ''player'' \<and> player_num self = Some n \<and> (n = 1 \<or> n = 2) \<and>
    active_rooms (conn_room_code self) = Some r \<and> engine r = Some eng \<and> status eng = Playing \<longrightarrow>
      handle_move_paddle self active_rooms data =
        Inr (self, active_rooms(conn_room_code self \<mapsto>
               r\<lparr>engine := Some (set_paddle_direction n d eng)\<rparr>), []) \<and>
      stored_direction n (set_paddle_direction n d eng) = d)"
  using move_invalid [of data self active_rooms] move_valid [of self n active_rooms r eng data d]
    stored_after_set [of n d eng]
  by (auto simp: receive_move_paddle_def)

theorem move_paddle_direction_witness:
  "\<not> valid_direction (direction_of [''type'' \<mapsto> JStr ''move_paddle'', ''direction'' \<mapsto> JStr ''diagonal'']) \<and>
   engine_created player_one [''ROOM'' \<mapsto> full_room] \<and>
   receive_move_paddle player_one [''ROOM'' \<mapsto> full_room]
     [''type'' \<mapsto> JStr ''move_paddle'', ''direction'' \<mapsto> JStr ''diagonal'']
     = (player_one, [''ROOM'' \<mapsto> full_room], []) \<and>
   valid_direction (JStr ''up'') \<and>
   direction_of [''type'' \<mapsto> JStr ''move_paddle'', ''direction'' \<mapsto> JStr ''up''] = JStr ''up'' \<and>
   handle_move_paddle player_one [''ROOM'' \<mapsto> full_room]
     [''type'' \<mapsto> JStr ''move_paddle'', ''direction'' \<mapsto> JStr ''up'']
     = Inr (player_one,
            [''ROOM'' \<mapsto> full_room\<lparr>engine := Some (set_paddle_direction 1 ''up'' rally)\<rparr>], []) \<and>
   stored_direction 1 (set_paddle_direction 1 ''up'' rally) = ''up''"
proof -
  have bad: "\<not> valid_direction
      (direction_of [''type'' \<mapsto> JStr ''move_paddle'', ''direction'' \<mapsto> JStr ''diagonal''])"
    by (simp add: valid_direction_def direction_of_def)
  have created: "engine_created player_one [''ROOM'' \<mapsto> full_room]"
    by (simp add: engine_created_def player_one_def full_room_def)
  have good: "valid_direction (JStr ''up'')"
    "direction_of [''type'' \<mapsto> JStr ''move_paddle'', ''direction'' \<mapsto> JStr ''up''] = JStr ''up''"
    by (simp_all add: valid_direction_def direction_of_def)
  have active: "role player_one = Some ''player''" "player_num player_one = Some 1"
    "[''ROOM'' \<mapsto> full_room] (conn_room_code player_one) = Some full_room"
    "engine full_room = Some rally" "status rally = Playing"
    by (simp_all add: player_one_def full_room_def rally_def)
  show ?thesis
    using move_paddle_direction [of "[''type'' \<mapsto> JStr ''move_paddle'', ''direction'' \<mapsto> JStr ''diagonal'']"
        player_one "[''ROOM'' \<mapsto> full_room]" "''up''" 1 full_room rally]
      move_paddle_direction [of "[''type'' \<mapsto> JStr ''move_paddle'', ''direction'' \<mapsto> JStr ''up'']"
        player_one "[''ROOM'' \<mapsto> full_room]" "''up''" 1 full_room rally]
      bad created good active
    by (simp add: player_one_def)
qed

text \<open>
  C9. A \<open>join_game\<close> asking for the player role in a registered room: when both slots
  are taken the connection gets the observer role, is appended to the observers and is
  sent \<open>joined_as_observer\<close>, and no slot changes; when slot 1 is free it gets slot 1;
  when slot 1 is taken and slot 2 is free it gets slot 2; in both cases with the player role
  and \<open>joined_as_player\<close>.
\<close>

theorem join_game_slots:
  assumes "active_rooms (conn_room_code self) = Some r" and "asks_player data"
  shows
   "(players r 1 \<noteq> None \<and> players r 2 \<noteq> None \<longrightarrow>
      handle_join_game self active_rooms data =
        (self\<lparr>role := Some ''observer''\<rparr>,
         active_rooms(conn_room_code self \<mapsto>
           r\<lparr>engine := Some (engine_or_default self r),
             observers := observers r @ [channel_name self]\<rparr>),
         [Send (JoinedAsObserver (conn_room_code self)),
          GroupSend (room_group_name self) (StatusChange (status (engine_or_default self r)))])) \<and>
    (players r 1 = None \<longrightarrow>
      handle_join_game self active_rooms data =
        (self\<lparr>player_num := Some 1, role := Some ''player''\<rparr>,
         active_rooms(conn_room_code self \<mapsto>
           r\<lparr>engine := Some (snd (player_join 1 (engine_or_default self r))),
             players := (players r)(1 \<mapsto> channel_name self)\<rparr>),
         [Send (JoinedAsPlayer (Some 1) (conn_room_code self)),
          GroupSend (room_group_name self)
            (StatusChange (status (snd (player_join 1 (engine_or_default self r)))))])) \<and>
    (players r 1 \<noteq> None \<and> players r 2 = None \<longrightarrow>
      handle_join_game self active_rooms data =
        (self\<lparr>player_num := Some 2, role := Some ''player''\<rparr>,
         active_rooms(conn_room_code self \<mapsto>
           r\<lparr>engine := Some (snd (player_join 2 (engine_or_default self r))),
             players := (players r)(2 \<mapsto> channel_name self)\<rparr>),
         [Send (JoinedAsPlayer (Some 2) (conn_room_code self)),
          GroupSend (room_group_name self)
            (StatusChange (status (snd (player_join 2 (engine_or_default self r)))))]))"
  using assms
    join_full [where active_rooms = active_rooms and self = self and r = r and data = data]
    join_slot1 [where active_rooms = active_rooms and self = self and r = r and data = data]
    join_slot2 [where active_rooms = active_rooms and self = self and r = r and data = data]
  by blast

theorem join_game_slots_witness:
  "([''ROOM'' \<mapsto> full_room] (conn_room_code newcomer) = Some full_room \<and>
    asks_player [''type'' \<mapsto> JStr ''join_game'', ''role'' \<mapsto> JStr ''player''] \<and>
    players full_room 1 \<noteq> None \<and> players full_room 2 \<noteq> None \<and>
    role (fst (handle_join_game newcomer [''ROOM'' \<mapsto> full_room]
      [''type'' \<mapsto> JStr ''join_game'', ''role'' \<mapsto> JStr ''player''])) = Some ''observer'' \<and>
    player_num (fst (handle_join_game newcomer [''ROOM'' \<mapsto> full_room]
      [''type'' \<mapsto> JStr ''join_game'', ''role'' \<mapsto> JStr ''player''])) = None \<and>
    snd (snd (handle_join_game newcomer [''ROOM'' \<mapsto> full_room]
      [''type'' \<mapsto> JStr ''join_game'', ''role'' \<mapsto> JStr ''player''])) =
      [Send (JoinedAsObserver ''ROOM''), GroupSend ''pong_ROOM'' (StatusChange Playing)]) \<and>
   ([''ROOM'' \<mapsto> open_room] (conn_room_code newcomer) = Some open_room \<and>
    asks_player [''type'' \<mapsto> JStr ''join_game''] \<and>
    players open_room 1 = None \<and>
    role (fst (handle_join_game newcomer [''ROOM'' \<mapsto> open_room]
      [''type'' \<mapsto> JStr ''join_game''])) = Some ''player'' \<and>
    player_num (fst (handle_join_game newcomer [''ROOM'' \<mapsto> open_room]
      [''type'' \<mapsto> JStr ''join_game''])) = Some 1 \<and>
    snd (snd (handle_join_game newcomer [''ROOM'' \<mapsto> open_room]
      [''type'' \<mapsto> JStr ''join_game''])) =
      [Send (JoinedAsPlayer (Some 1) ''ROOM''),
       GroupSend ''pong_ROOM'' (StatusChange WaitingForOpponent)])"
proof (rule conjI)
  have room: "[''ROOM'' \<mapsto> full_room] (conn_room_code newcomer) = Some full_room"
    by (simp add: newcomer_def)
  have asks: "asks_player [''type'' \<mapsto> JStr ''join_game'', ''role'' \<mapsto> JStr ''player'']"
    by (simp add: asks_player_def)
  have full: "players full_room 1 \<noteq> None" "players full_room 2 \<noteq> None"
    by (simp_all add: full_room_def)
  have eng: "status (engine_or_default newcomer full_room) = Playing"
    by (simp add: engine_or_default_def full_room_def rally_def)
  show "[''ROOM'' \<mapsto> full_room] (conn_room_code newcomer) = Some full_room \<and>
    asks_player [''type'' \<mapsto> JStr ''join_game'', ''role'' \<mapsto> JStr ''player''] \<and>
    players full_room 1 \<noteq> None \<and> players full_room 2 \<noteq> None \<and>
    role (fst (handle_join_game newcomer [''ROOM'' \<mapsto> full_room]
      [''type'' \<mapsto> JStr ''join_game'', ''role'' \<mapsto> JStr ''player''])) = Some ''observer'' \<and>
    player_num (fst (handle_join_game newcomer [''ROOM'' \<mapsto> full_room]
      [''type'' \<mapsto> JStr ''join_game'', ''role'' \<mapsto> JStr ''player''])) = None \<and>
    snd (snd (handle_join_game newcomer [''ROOM'' \<mapsto> full_room]
      [''type'' \<mapsto> JStr ''join_game'', ''role'' \<mapsto> JStr ''player''])) =
      [Send (JoinedAsObserver ''ROOM''), GroupSend ''pong_ROOM'' (StatusChange Playing)]"
    using join_game_slots [where active_rooms = "[''ROOM'' \<mapsto> full_room]" and self = newcomer
        and r = full_room
        and data = "[''type'' \<mapsto> JStr ''join_game'', ''role'' \<mapsto> JStr ''player'']"]
      room asks full eng
    by (simp add: newcomer_def)
next
  have room: "[''ROOM'' \<mapsto> open_room] (conn_room_code newcomer) = Some open_room"
    by (simp add: newcomer_def)
  have asks: "asks_player [''type'' \<mapsto> JStr ''join_game'']"
    by (simp add: asks_player_def)
  have free: "players open_room 1 = None"
    by (simp add: open_room_def)
  have eng: "status (snd (player_join 1 (engine_or_default newcomer open_room))) = WaitingForOpponent"
    by (simp add: engine_or_default_def open_room_def init_engine_def player_join_def Let_def)
  show "[''ROOM'' \<mapsto> open_room] (conn_room_code newcomer) = Some open_room \<and>
    asks_player [''type'' \<mapsto> JStr ''join_game''] \<and>
    players open_room 1 = None \<and>
    role (fst (handle_join_game newcomer [''ROOM'' \<mapsto> open_room]
      [''type'' \<mapsto> JStr ''join_game''])) = Some ''player'' \<and>
    player_num (fst (handle_join_game newcomer [''ROOM'' \<mapsto> open_room]
      [''type'' \<mapsto> JStr ''join_game''])) = Some 1 \<and>
    snd (snd (handle_join_game newcomer [''ROOM'' \<mapsto> open_room]
      [''type'' \<mapsto> JStr ''join_game''])) =
      [Send (JoinedAsPlayer (Some 1) ''ROOM''),
       GroupSend ''pong_ROOM'' (StatusChange WaitingForOpponent)]"
    using join_game_slots [where active_rooms = "[''ROOM'' \<mapsto> open_room]" and self = newcomer
        and r = open_room and data = "[''type'' \<mapsto> JStr ''join_game'']"]
      room asks free eng
    by (simp add: newcomer_def)
qed

end
